theory Spec2Isabelle
  imports Main
begin

section \<open>Wire types (types.ts)\<close>



datatype RTPacketTypes =
    GET_RACE | GET_HISTORY | MESSAGE | PIN_MESSAGE | UNPIN_MESSAGE | PING | SET_INFO
  | MAKE_OPEN | MAKE_INVITATIONAL | BEGIN | CANCEL | INVITE | ACCEPT_REQUEST
  | FORCE_UNREADY | REMOVE_ENTRANT | ADD_MONITOR | REMOVE_MONITOR | OVERRIDE_STREAM

datatype RTMessageTypes =
    CHAT_HISTORY | CHAT_MESSAGE | CHAT_DM | CHAT_PIN | CHAT_UNPIN | CHAT_DELETE | CHAT_PURGE
  | ERROR | PONG | RACE_DATA | RACE_RENDERS

fun RTMessageTypes_str :: "RTMessageTypes \<Rightarrow> string" where
  "RTMessageTypes_str CHAT_HISTORY = ''chat.history''"
| "RTMessageTypes_str CHAT_MESSAGE = ''chat.message''"
| "RTMessageTypes_str CHAT_DM = ''chat.dm''"
| "RTMessageTypes_str CHAT_PIN = ''chat.pin''"
| "RTMessageTypes_str CHAT_UNPIN = ''chat.pin''"
| "RTMessageTypes_str CHAT_DELETE = ''chat.delete''"
| "RTMessageTypes_str CHAT_PURGE = ''chat.purge''"
| "RTMessageTypes_str ERROR = ''error''"
| "RTMessageTypes_str PONG = ''pong''"
| "RTMessageTypes_str RACE_DATA = ''race.data''"
| "RTMessageTypes_str RACE_RENDERS = ''race.renders''"

text \<open>
  A decoded JSON value, as \<open>JSON.parse\<close> and \<open>Response.json()\<close> return it. Numbers
  are kept as integers: no function modelled here computes with a number inside a decoded
  value.
\<close>

datatype json =
    JNull | JBool bool | JNum int | JStr string | JArr "json list"
  | JObj "(string \<times> json) list"

text \<open>\<open>RTAction\<close>: an outbound command, \<open>{action, data?}\<close>.\<close>

record RTAction =
  action :: RTPacketTypes
  data :: "json option"

text \<open>
  What a JavaScript statement can raise here. \<open>TypeError\<close>: a property read on \<open>null\<close> or
  \<open>undefined\<close>, or a call of something that is not a function. \<open>SyntaxError\<close>: text that
  is not JSON. \<open>Error\<close>: a \<open>throw new Error(msg)\<close> of the source.
  \<open>UnknownMessageType\<close>: the \<open>Error\<close> of \<open>handleMessage\<close>'s default branch, with the
  value of \<open>message.type\<close> it reports (\<open>None\<close> for \<open>undefined\<close>).
  \<open>SocketFailure\<close>: the error object of the socket's \<open>error\<close> event.
  \<open>NetworkError\<close>: the rejection of a \<open>fetch\<close> whose endpoint cannot be reached.
\<close>

datatype error =
    TypeError string
  | SyntaxError
  | Error string
  | UnknownMessageType "json option"
  | SocketFailure string
  | NetworkError string

section \<open>The race socket session (websocket/client.ts)\<close>

text \<open>The events of \<open>WebSocketEvents\<close>, with their arguments.\<close>

datatype ws_event =
    Ready string
  | Close int string
  | Socket_error string
  | Raw_message string
  | Chat_history json
  | Chat_message json
  | Chat_dm
  | Chat_pin json
  | Chat_unpin json
  | Chat_delete json
  | Chat_purge json
  | Rt_error json
  | Pong_event
  | Race_data json

text \<open>
  \<open>WebSocketClient\<close>. The fields of the class are \<open>ready\<close> and \<open>messageQueue\<close>; of the
  underlying socket the model keeps its URL, the bearer token of its handshake and, in
  \<open>sent\<close>, every text handed to \<open>socket.send\<close>, in order. \<open>emitted\<close> is the sequence of
  events the session has emitted. Console output of the session is not modelled.
\<close>

record WebSocketClient =
  socket_url :: string
  bearer :: string
  ready :: bool
  messageQueue :: "RTAction list"
  sent :: "string list"
  emitted :: "ws_event list"

text \<open>The constructor: the socket is opened towards the room, nothing is ready or queued.\<close>

definition new_WebSocketClient :: "string \<Rightarrow> string \<Rightarrow> WebSocketClient" where
  "new_WebSocketClient access_token raceSocketUrl =
     \<lparr> socket_url = ''wss://racetime.gg'' @ raceSocketUrl,
       bearer = ''Bearer '' @ access_token,
       ready = False, messageQueue = [], sent = [], emitted = [] \<rparr>"

definition socket_send :: "string \<Rightarrow> WebSocketClient \<Rightarrow> WebSocketClient" where
  "socket_send text s = s\<lparr>sent := sent s @ [text]\<rparr>"

definition emit :: "ws_event \<Rightarrow> WebSocketClient \<Rightarrow> WebSocketClient" where
  "emit e s = s\<lparr>emitted := emitted s @ [e]\<rparr>"

text \<open>
  \<open>sendMessage\<close>. \<open>stringify\<close> stands for \<open>JSON.stringify\<close> on actions, which the
  repository does not define.
\<close>

definition sendMessage ::
  "(RTAction \<Rightarrow> string) \<Rightarrow> RTAction \<Rightarrow> WebSocketClient \<Rightarrow> WebSocketClient" where
  "sendMessage stringify message s =
     (if \<not> ready s then s\<lparr>messageQueue := messageQueue s @ [message]\<rparr>
      else socket_send (stringify message) s)"

text \<open>The \<open>forEach\<close> of the open handler: one \<open>socket.send\<close> per queued action, in order.\<close>

fun forEach_send ::
  "(RTAction \<Rightarrow> string) \<Rightarrow> RTAction list \<Rightarrow> WebSocketClient \<Rightarrow> WebSocketClient" where
  "forEach_send stringify [] s = s"
| "forEach_send stringify (message # rest) s =
     forEach_send stringify rest (socket_send (stringify message) s)"

text \<open>The handler of the socket's \<open>open\<close> event.\<close>

definition on_open :: "(RTAction \<Rightarrow> string) \<Rightarrow> WebSocketClient \<Rightarrow> WebSocketClient" where
  "on_open stringify s =
     (let s1 = emit (Ready (socket_url s)) s;
          s2 = s1\<lparr>ready := True\<rparr>;
          s3 = forEach_send stringify (messageQueue s2) s2
      in s3\<lparr>messageQueue := []\<rparr>)"

text \<open>
  The read of \<open>message.type\<close> on a decoded frame: a \<open>TypeError\<close> on \<open>null\<close>, the
  property on an object (\<open>None\<close> when the object has none), \<open>undefined\<close> on every other
  value.
\<close>

fun message_type :: "json \<Rightarrow> error + json option" where
  "message_type JNull = Inl (TypeError ''Cannot read properties of null'')"
| "message_type (JObj props) = Inr (map_of props ''type'')"
| "message_type _ = Inr None"

text \<open>
  The \<open>switch\<close> of \<open>handleMessage\<close>: its case labels in the order of the source, and the
  body of each case. A \<open>switch\<close> runs the first case whose label is strictly equal to the
  value, so only a string can select a case.
\<close>

definition switch_labels :: "RTMessageTypes list" where
  "switch_labels =
     [CHAT_DELETE, CHAT_DM, CHAT_HISTORY, CHAT_MESSAGE, CHAT_PIN, CHAT_UNPIN, CHAT_PURGE,
      ERROR, PONG, RACE_DATA, RACE_RENDERS]"

fun select_case :: "json option \<Rightarrow> RTMessageTypes option" where
  "select_case (Some (JStr t)) = find (\<lambda>l. RTMessageTypes_str l = t) switch_labels"
| "select_case _ = None"

fun case_body :: "RTMessageTypes \<Rightarrow> json \<Rightarrow> ws_event list" where
  "case_body CHAT_DELETE message = [Chat_delete message]"
| "case_body CHAT_DM message = []"
| "case_body CHAT_HISTORY message = [Chat_history message]"
| "case_body CHAT_MESSAGE message = [Chat_message message]"
| "case_body CHAT_PIN message = [Chat_pin message]"
| "case_body CHAT_UNPIN message = [Chat_unpin message]"
| "case_body CHAT_PURGE message = [Chat_purge message]"
| "case_body ERROR message = [Rt_error message]"
| "case_body PONG message = []"
| "case_body RACE_DATA message = [Race_data message]"
| "case_body RACE_RENDERS message = []"

text \<open>
  \<open>handleMessage\<close>: the error it raises, if any, and the events it emits. \<open>JSON_parse\<close>
  stands for \<open>JSON.parse\<close> (\<open>None\<close>: the text is not JSON and \<open>JSON.parse\<close> throws).
\<close>

definition handleMessage ::
  "(string \<Rightarrow> json option) \<Rightarrow> string \<Rightarrow> error option \<times> ws_event list" where
  "handleMessage JSON_parse frame =
     (case JSON_parse frame of
        None \<Rightarrow> (Some SyntaxError, [])
      | Some message \<Rightarrow>
          (case message_type message of
             Inl e \<Rightarrow> (Some e, [])
           | Inr t \<Rightarrow>
               (case select_case t of
                  None \<Rightarrow> (Some (UnknownMessageType t), [])
                | Some label \<Rightarrow> (None, case_body label message))))"

text \<open>
  The handlers of the socket's \<open>message\<close>, \<open>close\<close> and \<open>error\<close> events. The message
  handler emits the raw frame, then runs \<open>handleMessage\<close>, whose error leaves the handler
  uncaught.
\<close>

definition on_message ::
  "(string \<Rightarrow> json option) \<Rightarrow> string \<Rightarrow> WebSocketClient \<Rightarrow> error option \<times> WebSocketClient" where
  "on_message JSON_parse frame s =
     (let s1 = emit (Raw_message frame) s;
          (err, events) = handleMessage JSON_parse frame
      in (err, s1\<lparr>emitted := emitted s1 @ events\<rparr>))"

definition on_close :: "int \<Rightarrow> string \<Rightarrow> WebSocketClient \<Rightarrow> WebSocketClient" where
  "on_close code reason s = emit (Close code reason) s"

definition on_error :: "string \<Rightarrow> WebSocketClient \<Rightarrow> WebSocketClient" where
  "on_error err s = emit (Socket_error err) s"

section \<open>The client (index.ts)\<close>

subsection \<open>Data\<close>

text \<open>
  \<open>Credentials\<close>, as the client reads a decoded token answer. \<open>expires_in\<close> is a number
  of seconds; \<open>None\<close> stands for a value whose product with 1000 is \<open>NaN\<close>: the property
  is missing or is no number. Fractions of a second are outside the model.
\<close>

record Credentials =
  access_token :: string
  expires_in :: "int option"
  token_type :: string
  scope :: string

text \<open>
  \<open>RaceStatus\<close> and \<open>RaceDetails\<close>. A \<open>RaceDetails\<close> is the decoded body of a snapshot
  answer with the stamp the client puts on it: \<open>document\<close> is the value
  \<open>Response.json()\<close> returned, \<open>last_updated\<close> the stamp, and the remaining fields are
  the properties the client reads later, at the types the interface declares; the field
  \<open>value\<close> of \<open>RaceStatus\<close> is \<open>status_value\<close> here. Instants are milliseconds since the
  epoch, as \<open>Date.getTime()\<close> gives them.
\<close>

record RaceStatus =
  status_value :: string
  verbose_value :: string
  help_text :: string

record RaceDetails =
  last_updated :: int
  document :: json
  status :: RaceStatus
  race_url :: string
  websocket_bot_url :: string

text \<open>
  The shape the interface \<open>RaceDetails\<close> of types.ts declares for a snapshot: an object
  that has every property the interface lists without a question mark
  (\<open>last_updated\<close>, inherited from \<open>CachableData\<close>, is the one the client adds itself).
\<close>

definition RaceDetails_properties :: "string list" where
  "RaceDetails_properties =
     [''version'', ''name'', ''category'', ''status'', ''url'', ''data_url'',
      ''websocket_url'', ''websocket_bot_url'', ''websocket_oauth_url'', ''goal'', ''info'',
      ''info_bot'', ''info_user'', ''entrants_count'', ''entrants_count_finished'',
      ''entrants_count_inactive'', ''entrants'', ''opened_at'', ''start_delay'',
      ''unlisted'', ''time_limit'', ''time_limit_auto_complete'', ''streaming_required'',
      ''auto_start'', ''opened_by'', ''monitors'', ''recordable'', ''recorded'',
      ''recorded_by'', ''allow_comments'', ''hide_comments'', ''allow_midrace_chat'',
      ''allow_non_entrant_chat'', ''chat_message_delay'']"

fun snapshot_shape :: "json \<Rightarrow> bool" where
  "snapshot_shape (JObj props) =
     list_all (\<lambda>name. map_of props name \<noteq> None) RaceDetails_properties"
| "snapshot_shape _ = False"

datatype RacetimeEvent = Auth_success | Auth_error string

text \<open>
  \<open>RacetimeClient\<close>. \<open>auth\<close> is \<open>None\<close> while the field holds no object: the class
  declares the field, the constructor leaves it \<open>undefined\<close>, and a token answer whose
  body is \<open>null\<close> stores \<open>null\<close>; a property read raises on both. \<open>authExpireTime\<close> is
  the time value of the \<open>Date\<close>; \<open>None\<close> is the invalid date, whose \<open>getTime()\<close> is
  \<open>NaN\<close>.
\<close>

record RacetimeClient =
  clientId :: string
  clientSecret :: string
  auth :: "Credentials option"
  authExpireTime :: "int option"
  sockets :: "string \<rightharpoonup> WebSocketClient"
  category :: string
  raceDetailsCache :: "string \<rightharpoonup> RaceDetails"
  client_emitted :: "RacetimeEvent list"

subsection \<open>The world outside: HTTP, sockets, clock, console\<close>

record request =
  req_method :: string
  req_url :: string
  req_authorization :: "string option"
  req_form :: "(string \<times> string) list"

record response =
  status_code :: nat
  statusText :: string
  body_text :: string
  elapsed :: nat

text \<open>\<open>Response.ok\<close>: the status is in the range 200 to 299.\<close>

definition ok :: "response \<Rightarrow> bool" where
  "ok r = (200 \<le> status_code r \<and> status_code r \<le> 299)"

text \<open>
  What becomes of a request: the server answers it, or the endpoint cannot be reached and
  \<open>fetch\<close> rejects after some milliseconds.
\<close>

datatype reply = Answer response | Unreachable nat string

text \<open>
  How the connection attempt of a new socket ends: it opens after some milliseconds, it
  fails with an error after some milliseconds, or neither ever happens.
\<close>

datatype handshake = Opens nat | Fails nat string | Never

text \<open>
  The collaborators the repository does not define. \<open>server\<close> tells what becomes of the
  \<open>n\<close>-th request of the run. \<open>JSON_parse\<close> is \<open>JSON.parse\<close>, on the text of a frame
  and, as \<open>Response.json()\<close>, on the body of an answer (\<open>None\<close>: the text is not JSON and
  the call throws). \<open>as_Credentials\<close> and \<open>as_RaceDetails\<close> read a decoded value at the
  type the source casts it to: the properties the client uses, at their declared types. The
  cast checks nothing at run time, so they are defined on every value; what they give for a
  property that a value lacks is theirs to say. \<open>stringify\<close> is \<open>JSON.stringify\<close>;
  \<open>handshake\<close> tells how the socket opened towards a room fares.
\<close>

record env =
  server :: "nat \<Rightarrow> request \<Rightarrow> reply"
  JSON_parse :: "string \<Rightarrow> json option"
  as_Credentials :: "json \<Rightarrow> Credentials"
  as_RaceDetails :: "json \<Rightarrow> RaceDetails"
  stringify :: "RTAction \<Rightarrow> string"
  handshake :: "string \<Rightarrow> handshake"

datatype console_line = Console_error error | Console_trace string

text \<open>
  The observable world: the clock (\<open>new Date().getTime()\<close>), every HTTP request issued
  so far, the URL of every socket opened so far, and the console lines of
  \<open>fetchRaceData\<close>.
\<close>

record world =
  clock :: int
  requests :: "request list"
  connections :: "string list"
  console :: "console_line list"

text \<open>
  The result of awaiting an asynchronous function: it returns, it throws, or its promise
  never settles.
\<close>

datatype 'a outcome = Return 'a | Raise error | Unsettled

definition fetch :: "env \<Rightarrow> request \<Rightarrow> world \<Rightarrow> (error + response) \<times> world" where
  "fetch E req w =
     (case server E (length (requests w)) req of
        Answer resp \<Rightarrow>
          (Inr resp, w\<lparr>clock := clock w + int (elapsed resp), requests := requests w @ [req]\<rparr>)
      | Unreachable t msg \<Rightarrow>
          (Inl (NetworkError msg),
           w\<lparr>clock := clock w + int t, requests := requests w @ [req]\<rparr>))"

text \<open>
  \<open>Date.setTime\<close>: a time value beyond 8.64e15 milliseconds on either side of the epoch
  makes the date invalid. Within that range every whole number of milliseconds is exact in
  the arithmetic of the source.
\<close>

definition setTime :: "int \<Rightarrow> int option" where
  "setTime t =
     (if - 8640000000000000 \<le> t \<and> t \<le> 8640000000000000 then Some t else None)"

subsection \<open>Authorization\<close>

definition token_request :: "RacetimeClient \<Rightarrow> request" where
  "token_request c =
     \<lparr> req_method = ''POST'', req_url = ''https://racetime.gg/o/token'',
       req_authorization = None,
       req_form = [(''client_id'', clientId c), (''client_secret'', clientSecret c),
                   (''grant_type'', ''client_credentials'')] \<rparr>"

text \<open>What \<open>this.auth\<close> holds after the assignment of a decoded token answer.\<close>

definition credentials_of :: "env \<Rightarrow> json \<Rightarrow> Credentials option" where
  "credentials_of E decoded =
     (case decoded of JNull \<Rightarrow> None | _ \<Rightarrow> Some (as_Credentials E decoded))"

text \<open>
  \<open>authorize\<close>. On an OK answer the statements run in the order of the source: \<open>json()\<close>
  (which may throw), the assignment of \<open>this.auth\<close>, the assignment of a new \<open>Date\<close> to
  \<open>this.authExpireTime\<close>, the read of \<open>this.auth.expires_in\<close> (which raises when
  \<open>this.auth\<close> is \<open>null\<close>), and \<open>setTime\<close>.
\<close>

definition authorize ::
  "env \<Rightarrow> RacetimeClient \<Rightarrow> world \<Rightarrow> bool outcome \<times> RacetimeClient \<times> world" where
  "authorize E c w =
     (case fetch E (token_request c) w of
        (Inl e, w1) \<Rightarrow> (Raise e, c, w1)
      | (Inr client_authorization, w1) \<Rightarrow>
          if ok client_authorization then
            (case JSON_parse E (body_text client_authorization) of
               None \<Rightarrow> (Raise SyntaxError, c, w1)
             | Some decoded \<Rightarrow>
                 (let c1 = c\<lparr>auth := credentials_of E decoded,
                              authExpireTime := Some (clock w1)\<rparr>
                  in case auth c1 of
                       None \<Rightarrow> (Raise (TypeError ''Cannot read properties of null''), c1, w1)
                     | Some credentials \<Rightarrow>
                         (Return True,
                          c1\<lparr>authExpireTime :=
                               (case expires_in credentials of
                                  None \<Rightarrow> None
                                | Some seconds \<Rightarrow> setTime (clock w1 + seconds * 1000))\<rparr>,
                          w1)))
          else
            (Return False,
             c\<lparr>client_emitted := client_emitted c @ [Auth_error (statusText client_authorization)]\<rparr>,
             w1))"

text \<open>
  The test \<open>this.authExpireTime.getTime() <= new Date().getTime()\<close>; a comparison with
  \<open>NaN\<close> is false.
\<close>

definition expired :: "RacetimeClient \<Rightarrow> world \<Rightarrow> bool" where
  "expired c w = (case authExpireTime c of None \<Rightarrow> False | Some t \<Rightarrow> t \<le> clock w)"

text \<open>
  The statement that opens both \<open>joinRaceRoom\<close> and \<open>authenticatedFetch\<close>:
  \<^verbatim>\<open>if(this.authExpireTime.getTime() <= new Date().getTime()) {
    if(!await this.authorize()) throw new Error(`Unable to refresh access_token!`); }\<close>
\<close>

definition refresh_if_expired ::
  "env \<Rightarrow> RacetimeClient \<Rightarrow> world \<Rightarrow> unit outcome \<times> RacetimeClient \<times> world" where
  "refresh_if_expired E c w =
     (if expired c w then
        (case authorize E c w of
           (Return True, c1, w1) \<Rightarrow> (Return (), c1, w1)
         | (Return False, c1, w1) \<Rightarrow> (Raise (Error ''Unable to refresh access_token!''), c1, w1)
         | (Raise e, c1, w1) \<Rightarrow> (Raise e, c1, w1)
         | (Unsettled, c1, w1) \<Rightarrow> (Unsettled, c1, w1))
      else (Return (), c, w))"

definition authenticatedFetch ::
  "env \<Rightarrow> request \<Rightarrow> RacetimeClient \<Rightarrow> world \<Rightarrow> response outcome \<times> RacetimeClient \<times> world" where
  "authenticatedFetch E init c w =
     (case refresh_if_expired E c w of
        (Return u, c1, w1) \<Rightarrow>
          (case auth c1 of
             None \<Rightarrow> (Raise (TypeError ''Cannot read properties of undefined''), c1, w1)
           | Some credentials \<Rightarrow>
               (case fetch E (init\<lparr>req_authorization :=
                                   Some (''Bearer '' @ access_token credentials)\<rparr>) w1 of
                  (Inr resp, w2) \<Rightarrow> (Return resp, c1, w2)
                | (Inl e, w2) \<Rightarrow> (Raise e, c1, w2)))
      | (Raise e, c1, w1) \<Rightarrow> (Raise e, c1, w1)
      | (Unsettled, c1, w1) \<Rightarrow> (Unsettled, c1, w1))"

subsection \<open>The snapshot cache\<close>

definition data_request :: "string \<Rightarrow> request" where
  "data_request raceUrl =
     \<lparr> req_method = ''GET'', req_url = ''https://racetime.gg'' @ raceUrl @ ''/data'',
       req_authorization = None, req_form = [] \<rparr>"

text \<open>The cache test that opens \<open>fetchRaceData\<close>: the entry to return at once, if any.\<close>

definition cached :: "RacetimeClient \<Rightarrow> world \<Rightarrow> string \<Rightarrow> RaceDetails option" where
  "cached c w raceUrl =
     (case raceDetailsCache c raceUrl of
        None \<Rightarrow> None
      | Some raceDetails \<Rightarrow>
          if last_updated raceDetails + 1000 * 30 > clock w then Some raceDetails else None)"

text \<open>
  The cast of the decoded body and the assignment \<open>raceDetails.last_updated = new Date()\<close>.
  An object or an array takes the property, whatever else it holds. The assignment raises
  on \<open>null\<close>, and, the body of a class being strict code, on a boolean, a number and a
  string.
\<close>

fun stamp :: "env \<Rightarrow> json \<Rightarrow> int \<Rightarrow> error + RaceDetails" where
  "stamp E (JObj props) now =
     Inr ((as_RaceDetails E (JObj props))\<lparr>last_updated := now, document := JObj props\<rparr>)"
| "stamp E (JArr items) now =
     Inr ((as_RaceDetails E (JArr items))\<lparr>last_updated := now, document := JArr items\<rparr>)"
| "stamp E JNull now = Inl (TypeError ''Cannot set properties of null'')"
| "stamp E decoded now = Inl (TypeError ''Cannot create property on a primitive'')"

text \<open>
  The statements of the \<open>try\<close> block up to the stamp: \<open>json()\<close>, which throws on a body
  that is not JSON, the cast and the stamp.
\<close>

definition json_RaceDetails :: "env \<Rightarrow> string \<Rightarrow> int \<Rightarrow> error + RaceDetails" where
  "json_RaceDetails E body now =
     (case JSON_parse E body of
        None \<Rightarrow> Inl SyntaxError
      | Some decoded \<Rightarrow> stamp E decoded now)"

text \<open>
  \<open>fetchRaceData\<close>; \<open>Return None\<close> is the \<open>return null\<close> of the source. The \<open>catch\<close>
  writes the error and then the text of the body to the console.
\<close>

definition fetchRaceData ::
  "env \<Rightarrow> string \<Rightarrow> RacetimeClient \<Rightarrow> world \<Rightarrow>
     RaceDetails option outcome \<times> RacetimeClient \<times> world" where
  "fetchRaceData E raceUrl c w =
     (case cached c w raceUrl of
        Some raceDetails \<Rightarrow> (Return (Some raceDetails), c, w)
      | None \<Rightarrow>
          (case authenticatedFetch E (data_request raceUrl) c w of
             (Return raceData, c1, w1) \<Rightarrow>
               if ok raceData then
                 (case json_RaceDetails E (body_text raceData) (clock w1) of
                    Inr raceDetails \<Rightarrow>
                      (Return (Some raceDetails),
                       c1\<lparr>raceDetailsCache := (raceDetailsCache c1)(raceUrl \<mapsto> raceDetails)\<rparr>,
                       w1)
                  | Inl e \<Rightarrow>
                      (Return None, c1,
                       w1\<lparr>console := console w1 @
                            [Console_error e, Console_trace (body_text raceData)]\<rparr>))
               else (Return None, c1, w1)
           | (Raise e, c1, w1) \<Rightarrow> (Raise e, c1, w1)
           | (Unsettled, c1, w1) \<Rightarrow> (Unsettled, c1, w1)))"

subsection \<open>Joining a room\<close>

text \<open>
  \<open>joinRaceRoom\<close>, awaited. A new session is stored in \<open>sockets\<close> before its promise
  settles; the promise then follows the first of the session's \<open>ready\<close> and
  \<open>socket error\<close> events, which the socket's handshake decides.
\<close>

definition joinRaceRoom ::
  "env \<Rightarrow> string \<Rightarrow> RacetimeClient \<Rightarrow> world \<Rightarrow> bool outcome \<times> RacetimeClient \<times> world" where
  "joinRaceRoom E roomUrl c w =
     (if sockets c roomUrl = None then
        (case refresh_if_expired E c w of
           (Return u, c1, w1) \<Rightarrow>
             (case auth c1 of
                None \<Rightarrow> (Raise (TypeError ''Cannot read properties of undefined''), c1, w1)
              | Some credentials \<Rightarrow>
                  (let socket = new_WebSocketClient (access_token credentials) roomUrl;
                       w2 = w1\<lparr>connections := connections w1 @ [socket_url socket]\<rparr>
                   in case handshake E roomUrl of
                        Opens t \<Rightarrow>
                          (Return True,
                           c1\<lparr>sockets := (sockets c1)(roomUrl \<mapsto> on_open (stringify E) socket)\<rparr>,
                           w2\<lparr>clock := clock w2 + int t\<rparr>)
                      | Fails t err \<Rightarrow>
                          (Raise (SocketFailure err),
                           c1\<lparr>sockets := (sockets c1)(roomUrl \<mapsto> on_error err socket)\<rparr>,
                           w2\<lparr>clock := clock w2 + int t\<rparr>)
                      | Never \<Rightarrow>
                          (Unsettled, c1\<lparr>sockets := (sockets c1)(roomUrl \<mapsto> socket)\<rparr>, w2)))
         | (Raise e, c1, w1) \<Rightarrow> (Raise e, c1, w1)
         | (Unsettled, c1, w1) \<Rightarrow> (Unsettled, c1, w1))
      else (Return True, c, w))"

subsection \<open>Socket events of a registered session\<close>

text \<open>
  The \<open>close\<close> listener \<open>joinRaceRoom\<close> attaches to every session it creates. It calls
  \<open>socket.reconnect()\<close> on the \<open>WebSocketClient\<close>; the class declares the constructor,
  \<open>sendMessage\<close> and \<open>handleMessage\<close>, its base class is an event emitter, and neither
  has a member \<open>reconnect\<close>: the call is a call of \<open>undefined\<close>.
\<close>

definition reconnect :: "WebSocketClient \<Rightarrow> error + WebSocketClient" where
  "reconnect socket = Inl (TypeError ''socket.reconnect is not a function'')"

definition close_listener :: "int \<Rightarrow> string \<Rightarrow> WebSocketClient \<Rightarrow> error + WebSocketClient" where
  "close_listener code reason socket =
     (if code > 1000 then reconnect socket else Inr socket)"

datatype socket_event =
    Socket_open | Socket_message string | Socket_close int string | Socket_failed string

text \<open>
  An event of the socket of the session registered under \<open>roomUrl\<close>: the session's own
  handler runs, then the listeners of \<open>joinRaceRoom\<close> (those of \<open>ready\<close> and
  \<open>socket error\<close> settle a promise and change nothing else). The first component is the
  error that leaves the handler uncaught, if any.
\<close>

definition deliver ::
  "env \<Rightarrow> string \<Rightarrow> socket_event \<Rightarrow> RacetimeClient \<Rightarrow> world \<Rightarrow>
     error option \<times> RacetimeClient \<times> world" where
  "deliver E roomUrl ev c w =
     (case sockets c roomUrl of
        None \<Rightarrow> (None, c, w)
      | Some socket \<Rightarrow>
          (case ev of
             Socket_open \<Rightarrow>
               (None, c\<lparr>sockets := (sockets c)(roomUrl \<mapsto> on_open (stringify E) socket)\<rparr>, w)
           | Socket_message frame \<Rightarrow>
               (case on_message (JSON_parse E) frame socket of
                  (err, socket1) \<Rightarrow> (err, c\<lparr>sockets := (sockets c)(roomUrl \<mapsto> socket1)\<rparr>, w))
           | Socket_close code reason \<Rightarrow>
               (let socket1 = on_close code reason socket;
                    c1 = c\<lparr>sockets := (sockets c)(roomUrl \<mapsto> socket1)\<rparr>
                in case close_listener code reason socket1 of
                     Inl e \<Rightarrow> (Some e, c1, w)
                   | Inr socket2 \<Rightarrow>
                       (None, c1\<lparr>sockets := (sockets c1)(roomUrl \<mapsto> socket2)\<rparr>, w))
           | Socket_failed err \<Rightarrow>
               (None, c\<lparr>sockets := (sockets c)(roomUrl \<mapsto> on_error err socket)\<rparr>, w)))"

subsection \<open>Cancelling a race\<close>

definition cancel_action :: RTAction where
  "cancel_action = \<lparr> action = CANCEL, data = None \<rparr>"


section \<open>A sample run\<close>

text \<open>
  Concrete collaborators for the instances below. The sample server grants a one-hour
  token, answers for the race \<open>/cat/race-1\<close> with a snapshot that names the bot socket
  \<open>/ws/o/bot/race-1\<close>, for \<open>/cat/race-2\<close> with a page that is not JSON, for
  \<open>/cat/race-3\<close> with the empty object, and with a 404 for every other URL. The readers
  of the sample environment take each property from the decoded object, and give the text
  \<open>undefined\<close>, or no number, for a property the object lacks. Four more environments
  differ in the server: it refuses every request with a 401, it answers every request
  with a page that is not JSON, it cannot be reached, or it grants a token without
  \<open>expires_in\<close>. The sample client is as the constructor leaves it (no credential, an
  expiry in the year 2000); the clock is in the year 2023.
\<close>

definition text_property :: "string \<Rightarrow> json \<Rightarrow> string" where
  "text_property name decoded =
     (case decoded of
        JObj props \<Rightarrow> (case map_of props name of Some (JStr s) \<Rightarrow> s | _ \<Rightarrow> ''undefined'')
      | _ \<Rightarrow> ''undefined'')"

definition number_property :: "string \<Rightarrow> json \<Rightarrow> int option" where
  "number_property name decoded =
     (case decoded of
        JObj props \<Rightarrow> (case map_of props name of Some (JNum n) \<Rightarrow> Some n | _ \<Rightarrow> None)
      | _ \<Rightarrow> None)"

definition object_property :: "string \<Rightarrow> json \<Rightarrow> json" where
  "object_property name decoded =
     (case decoded of
        JObj props \<Rightarrow> (case map_of props name of Some v \<Rightarrow> v | None \<Rightarrow> JNull)
      | _ \<Rightarrow> JNull)"

definition sample_as_Credentials :: "json \<Rightarrow> Credentials" where
  "sample_as_Credentials decoded =
     \<lparr> access_token = text_property ''access_token'' decoded,
       expires_in = number_property ''expires_in'' decoded,
       token_type = text_property ''token_type'' decoded,
       scope = text_property ''scope'' decoded \<rparr>"

definition sample_as_RaceDetails :: "json \<Rightarrow> RaceDetails" where
  "sample_as_RaceDetails decoded =
     \<lparr> last_updated = 0, document = decoded,
       status =
         \<lparr> status_value = text_property ''value'' (object_property ''status'' decoded),
           verbose_value = text_property ''verbose_value'' (object_property ''status'' decoded),
           help_text = text_property ''help_text'' (object_property ''status'' decoded) \<rparr>,
       race_url = text_property ''url'' decoded,
       websocket_bot_url = text_property ''websocket_bot_url'' decoded \<rparr>"

definition sample_token_document :: json where
  "sample_token_document =
     JObj [(''access_token'', JStr ''tok''), (''expires_in'', JNum 3600),
           (''token_type'', JStr ''Bearer''), (''scope'', JStr ''read'')]"

definition sample_credentials :: Credentials where
  "sample_credentials =
     \<lparr> access_token = ''tok'', expires_in = Some 3600, token_type = ''Bearer'',
       scope = ''read'' \<rparr>"

definition sample_document :: json where
  "sample_document =
     JObj [(''status'', JObj [(''value'', JStr ''open''), (''verbose_value'', JStr ''Open''),
                              (''help_text'', JStr ''Anyone may join this race'')]),
           (''url'', JStr ''/cat/race-1''),
           (''websocket_bot_url'', JStr ''/ws/o/bot/race-1'')]"


definition sample_server :: "nat \<Rightarrow> request \<Rightarrow> reply" where
  "sample_server n req =
     (if req_url req = ''https://racetime.gg/o/token'' then
        Answer \<lparr> status_code = 200, statusText = ''OK'', body_text = ''CREDENTIALS'',
                 elapsed = 5 \<rparr>
      else if req_url req = ''https://racetime.gg/cat/race-1/data'' then
        Answer \<lparr> status_code = 200, statusText = ''OK'', body_text = ''RACE'', elapsed = 7 \<rparr>
      else if req_url req = ''https://racetime.gg/cat/race-2/data'' then
        Answer \<lparr> status_code = 200, statusText = ''OK'', body_text = ''<html>'', elapsed = 7 \<rparr>
      else if req_url req = ''https://racetime.gg/cat/race-3/data'' then
        Answer \<lparr> status_code = 200, statusText = ''OK'', body_text = ''{}'', elapsed = 7 \<rparr>
      else
        Answer \<lparr> status_code = 404, statusText = ''Not Found'', body_text = [],
                 elapsed = 3 \<rparr>)"

definition sample_parse :: "string \<Rightarrow> json option" where
  "sample_parse text =
     (if text = ''CREDENTIALS'' then Some sample_token_document
      else if text = ''UNDATED'' then Some (JObj [(''access_token'', JStr ''tok'')])
      else if text = ''RACE'' then Some sample_document
      else if text = ''{}'' then Some (JObj [])
      else if text = ''M'' then Some (JObj [(''type'', JStr ''chat.message''),
                                            (''message'', JStr ''hello'')])
      else if text = ''P'' then Some (JObj [(''type'', JStr ''chat.pin'')])
      else if text = ''B'' then Some (JObj [(''type'', JStr ''bogus.kind'')])
      else None)"

definition sample_env :: env where
  "sample_env =
     \<lparr> server = sample_server,
       JSON_parse = sample_parse,
       as_Credentials = sample_as_Credentials,
       as_RaceDetails = sample_as_RaceDetails,
       stringify = (\<lambda>a. if action a = CANCEL then ''cancel'' else ''other''),
       handshake = (\<lambda>roomUrl. Opens 10) \<rparr>"

definition refusing_env :: env where
  "refusing_env =
     sample_env\<lparr>server := (\<lambda>n req.
        Answer \<lparr> status_code = 401, statusText = ''Unauthorized'', body_text = [],
                 elapsed = 4 \<rparr>)\<rparr>"




definition sample_client :: RacetimeClient where
  "sample_client =
     \<lparr> clientId = ''id'', clientSecret = ''secret'', auth = None,
       authExpireTime = Some 946684800000, sockets = Map.empty, category = ''cat'',
       raceDetailsCache = Map.empty, client_emitted = [] \<rparr>"

definition sample_world :: world where
  "sample_world = \<lparr> clock = 1700000000000, requests = [], connections = [], console = [] \<rparr>"

definition authorized_client :: RacetimeClient where
  "authorized_client =
     sample_client\<lparr>auth := Some sample_credentials, authExpireTime := Some 1700003600005\<rparr>"

text \<open>A session that is still connecting, with one command queued.\<close>

definition sample_session :: WebSocketClient where
  "sample_session =
     (new_WebSocketClient ''tok'' ''/ws/o/bot/race-1'')
       \<lparr>messageQueue := [\<lparr> action = GET_RACE, data = None \<rparr>]\<rparr>"

section \<open>The outbound queue\<close>

lemma forEach_send_eq: "forEach_send f q s = s\<lparr>sent := sent s @ map f q\<rparr>"
  by (induction q arbitrary: s) (simp_all add: socket_send_def)

lemma on_open_eq:
  "on_open f s =
     s\<lparr>ready := True, messageQueue := [], sent := sent s @ map f (messageQueue s),
       emitted := emitted s @ [Ready (socket_url s)]\<rparr>"
  by (simp add: on_open_def Let_def emit_def forEach_send_eq)

lemma sends_not_ready:
  "\<not> ready s \<Longrightarrow>
   foldl (\<lambda>s m. sendMessage f m s) s ms = s\<lparr>messageQueue := messageQueue s @ ms\<rparr>"
  by (induction ms arbitrary: s) (simp_all add: sendMessage_def)

text \<open>
  C6. A send on a ready session hands the serialized action to the socket at once. A send
  on a session that is not ready appends the action to the queue, whatever its length. For
  any sequence \<open>ms\<close> of sends on a session that is not ready, the queue grows by \<open>ms\<close> in
  the order of the calls and nothing is transmitted; when the socket then opens, the
  socket receives the serialized queue, earlier entries first, the queue is empty and the
  session is ready.
\<close>

theorem send_queue_fifo:
  "(ready s \<longrightarrow> sendMessage f m s = s\<lparr>sent := sent s @ [f m]\<rparr>) \<and>
   (\<not> ready s \<longrightarrow> sendMessage f m s = s\<lparr>messageQueue := messageQueue s @ [m]\<rparr>) \<and>
   (\<not> ready s \<longrightarrow>
      messageQueue (foldl (\<lambda>s m. sendMessage f m s) s ms) = messageQueue s @ ms \<and>
      sent (foldl (\<lambda>s m. sendMessage f m s) s ms) = sent s \<and>
      sent (on_open f (foldl (\<lambda>s m. sendMessage f m s) s ms)) =
        sent s @ map f (messageQueue s @ ms) \<and>
      messageQueue (on_open f (foldl (\<lambda>s m. sendMessage f m s) s ms)) = [] \<and>
      ready (on_open f (foldl (\<lambda>s m. sendMessage f m s) s ms)))"
proof (intro conjI impI)
  assume "ready s"
  then show "sendMessage f m s = s\<lparr>sent := sent s @ [f m]\<rparr>"
    by (simp add: sendMessage_def socket_send_def)
next
  assume "\<not> ready s"
  then show "sendMessage f m s = s\<lparr>messageQueue := messageQueue s @ [m]\<rparr>"
    by (simp add: sendMessage_def)
next
  assume n: "\<not> ready s"
  show "messageQueue (foldl (\<lambda>s m. sendMessage f m s) s ms) = messageQueue s @ ms"
    by (simp add: sends_not_ready [OF n])
  show "sent (foldl (\<lambda>s m. sendMessage f m s) s ms) = sent s"
    by (simp add: sends_not_ready [OF n])
  show "sent (on_open f (foldl (\<lambda>s m. sendMessage f m s) s ms)) =
        sent s @ map f (messageQueue s @ ms)"
    by (simp add: sends_not_ready [OF n] on_open_eq)
  show "messageQueue (on_open f (foldl (\<lambda>s m. sendMessage f m s) s ms)) = []"
    by (simp add: on_open_eq)
  show "ready (on_open f (foldl (\<lambda>s m. sendMessage f m s) s ms))"
    by (simp add: on_open_eq)
qed

text \<open>
  An instance: two sends on the connecting sample session, then the socket opens; a third
  send on the opened session goes out at once, after the flushed queue.
\<close>

theorem send_queue_fifo_witness:
  "sent (on_open (stringify sample_env)
           (foldl (\<lambda>s m. sendMessage (stringify sample_env) m s) sample_session
              [cancel_action, \<lparr> action = PING, data = None \<rparr>])) =
     [''other'', ''cancel'', ''other''] \<and>
   sent (sendMessage (stringify sample_env) cancel_action
           (on_open (stringify sample_env) sample_session)) = [''other'', ''cancel'']"
  using send_queue_fifo [of sample_session "stringify sample_env" cancel_action
      "[cancel_action, \<lparr> action = PING, data = None \<rparr>]"]
    send_queue_fifo [of "on_open (stringify sample_env) sample_session"
      "stringify sample_env" cancel_action "[]"]
  by (simp add: sample_session_def new_WebSocketClient_def sample_env_def cancel_action_def
      on_open_eq sendMessage_def socket_send_def)

section \<open>Inbound dispatch\<close>

lemma select_case_str:
  "select_case (Some (JStr t)) =
     (if t = ''chat.delete'' then Some CHAT_DELETE
      else if t = ''chat.dm'' then Some CHAT_DM
      else if t = ''chat.history'' then Some CHAT_HISTORY
      else if t = ''chat.message'' then Some CHAT_MESSAGE
      else if t = ''chat.pin'' then Some CHAT_PIN
      else if t = ''chat.purge'' then Some CHAT_PURGE
      else if t = ''error'' then Some ERROR
      else if t = ''pong'' then Some PONG
      else if t = ''race.data'' then Some RACE_DATA
      else if t = ''race.renders'' then Some RACE_RENDERS
      else None)"
  by (simp add: switch_labels_def)

lemma select_case_not_unpin: "select_case t \<noteq> Some CHAT_UNPIN"
proof (cases t)
  case None
  then show ?thesis by simp
next
  case (Some j)
  then show ?thesis
    by (cases j) (simp_all add: select_case_str del: select_case.simps(1))
qed

lemma case_body_length: "length (case_body l m) \<le> Suc 0"
  by (cases l) simp_all

lemma case_body_unpin: "Chat_unpin x \<in> set (case_body l m) \<Longrightarrow> l = CHAT_UNPIN"
  by (cases l) simp_all

lemma handleMessage_length: "length (snd (handleMessage p d)) \<le> 1"
  by (simp add: handleMessage_def case_body_length split: option.splits sum.splits)

lemma handleMessage_error: "fst (handleMessage p d) \<noteq> None \<Longrightarrow> snd (handleMessage p d) = []"
  by (auto simp add: handleMessage_def split: option.splits sum.splits)

lemma handleMessage_typed:
  "p d = Some m \<Longrightarrow> message_type m = Inr (Some (JStr t)) \<Longrightarrow>
   handleMessage p d =
     (if t = ''chat.delete'' then (None, [Chat_delete m])
      else if t = ''chat.dm'' then (None, [])
      else if t = ''chat.history'' then (None, [Chat_history m])
      else if t = ''chat.message'' then (None, [Chat_message m])
      else if t = ''chat.pin'' then (None, [Chat_pin m])
      else if t = ''chat.purge'' then (None, [Chat_purge m])
      else if t = ''error'' then (None, [Rt_error m])
      else if t = ''pong'' then (None, [])
      else if t = ''race.data'' then (None, [Race_data m])
      else if t = ''race.renders'' then (None, [])
      else (Some (UnknownMessageType (Some (JStr t))), []))"
  by (simp add: handleMessage_def select_case_str del: select_case.simps)

lemma handleMessage_untyped:
  "p d = Some m \<Longrightarrow> message_type m = Inr ty \<Longrightarrow> \<forall>t. ty \<noteq> Some (JStr t) \<Longrightarrow>
   handleMessage p d = (Some (UnknownMessageType ty), [])"
proof -
  assume a: "p d = Some m" "message_type m = Inr ty" "\<forall>t. ty \<noteq> Some (JStr t)"
  have "select_case ty = None"
  proof (cases ty)
    case None
    then show ?thesis by simp
  next
    case (Some j)
    with a(3) show ?thesis by (cases j) simp_all
  qed
  with a(1,2) show ?thesis by (simp add: handleMessage_def)
qed

lemma known_kinds:
  "t \<in> range RTMessageTypes_str \<longleftrightarrow>
   t \<in> {''chat.delete'', ''chat.dm'', ''chat.history'', ''chat.message'', ''chat.pin'',
        ''chat.purge'', ''error'', ''pong'', ''race.data'', ''race.renders''}"
proof
  assume "t \<in> range RTMessageTypes_str"
  then obtain l where "t = RTMessageTypes_str l" by blast
  then show "t \<in> {''chat.delete'', ''chat.dm'', ''chat.history'', ''chat.message'', ''chat.pin'',
        ''chat.purge'', ''error'', ''pong'', ''race.data'', ''race.renders''}"
    by (cases l) simp_all
next
  assume a: "t \<in> {''chat.delete'', ''chat.dm'', ''chat.history'', ''chat.message'', ''chat.pin'',
        ''chat.purge'', ''error'', ''pong'', ''race.data'', ''race.renders''}"
  have "RTMessageTypes_str CHAT_DELETE \<in> range RTMessageTypes_str"
       "RTMessageTypes_str CHAT_DM \<in> range RTMessageTypes_str"
       "RTMessageTypes_str CHAT_HISTORY \<in> range RTMessageTypes_str"
       "RTMessageTypes_str CHAT_MESSAGE \<in> range RTMessageTypes_str"
       "RTMessageTypes_str CHAT_PIN \<in> range RTMessageTypes_str"
       "RTMessageTypes_str CHAT_PURGE \<in> range RTMessageTypes_str"
       "RTMessageTypes_str ERROR \<in> range RTMessageTypes_str"
       "RTMessageTypes_str PONG \<in> range RTMessageTypes_str"
       "RTMessageTypes_str RACE_DATA \<in> range RTMessageTypes_str"
       "RTMessageTypes_str RACE_RENDERS \<in> range RTMessageTypes_str"
    by blast+
  with a show "t \<in> range RTMessageTypes_str" by auto
qed

text \<open>
  C3. \<open>handleMessage\<close> decodes the frame once and emits at most one event, and none when
  it raises. A frame whose \<open>type\<close> is the string of a message kind emits exactly the one
  event of that kind, carrying the decoded frame as it is (\<open>chat.message\<close> emits one
  \<open>chat-message\<close> event), except that \<open>chat.dm\<close>, \<open>race.renders\<close> and \<open>pong\<close> emit
  nothing and raise nothing. A frame whose \<open>type\<close> is the string of no message kind, is
  not a string or is missing raises the unknown-type error and emits nothing; so does, with
  a syntax error, a frame that is not JSON.
\<close>

theorem handleMessage_dispatch:
  "length (snd (handleMessage p d)) \<le> 1 \<and>
   (fst (handleMessage p d) \<noteq> None \<longrightarrow> snd (handleMessage p d) = []) \<and>
   (p d = Some m \<and> message_type m = Inr (Some (JStr t)) \<longrightarrow>
      (t = ''chat.message'' \<longrightarrow> handleMessage p d = (None, [Chat_message m])) \<and>
      (t = ''chat.history'' \<longrightarrow> handleMessage p d = (None, [Chat_history m])) \<and>
      (t = ''chat.pin'' \<longrightarrow> handleMessage p d = (None, [Chat_pin m])) \<and>
      (t = ''chat.delete'' \<longrightarrow> handleMessage p d = (None, [Chat_delete m])) \<and>
      (t = ''chat.purge'' \<longrightarrow> handleMessage p d = (None, [Chat_purge m])) \<and>
      (t = ''error'' \<longrightarrow> handleMessage p d = (None, [Rt_error m])) \<and>
      (t = ''race.data'' \<longrightarrow> handleMessage p d = (None, [Race_data m])) \<and>
      (t \<in> {''chat.dm'', ''race.renders'', ''pong''} \<longrightarrow> handleMessage p d = (None, [])) \<and>
      (t \<notin> range RTMessageTypes_str \<longrightarrow>
         handleMessage p d = (Some (UnknownMessageType (Some (JStr t))), []))) \<and>
   (p d = Some m \<and> message_type m = Inr ty \<and> (\<forall>t. ty \<noteq> Some (JStr t)) \<longrightarrow>
      handleMessage p d = (Some (UnknownMessageType ty), [])) \<and>
   (p d = None \<longrightarrow> handleMessage p d = (Some SyntaxError, []))"
proof (intro conjI)
  show "length (snd (handleMessage p d)) \<le> 1"
    by (rule handleMessage_length)
  show "fst (handleMessage p d) \<noteq> None \<longrightarrow> snd (handleMessage p d) = []"
    by (simp add: handleMessage_error)
  show "p d = Some m \<and> message_type m = Inr (Some (JStr t)) \<longrightarrow>
      (t = ''chat.message'' \<longrightarrow> handleMessage p d = (None, [Chat_message m])) \<and>
      (t = ''chat.history'' \<longrightarrow> handleMessage p d = (None, [Chat_history m])) \<and>
      (t = ''chat.pin'' \<longrightarrow> handleMessage p d = (None, [Chat_pin m])) \<and>
      (t = ''chat.delete'' \<longrightarrow> handleMessage p d = (None, [Chat_delete m])) \<and>
      (t = ''chat.purge'' \<longrightarrow> handleMessage p d = (None, [Chat_purge m])) \<and>
      (t = ''error'' \<longrightarrow> handleMessage p d = (None, [Rt_error m])) \<and>
      (t = ''race.data'' \<longrightarrow> handleMessage p d = (None, [Race_data m])) \<and>
      (t \<in> {''chat.dm'', ''race.renders'', ''pong''} \<longrightarrow> handleMessage p d = (None, [])) \<and>
      (t \<notin> range RTMessageTypes_str \<longrightarrow>
         handleMessage p d = (Some (UnknownMessageType (Some (JStr t))), []))"
  proof
    assume a: "p d = Some m \<and> message_type m = Inr (Some (JStr t))"
    then have h: "handleMessage p d =
     (if t = ''chat.delete'' then (None, [Chat_delete m])
      else if t = ''chat.dm'' then (None, [])
      else if t = ''chat.history'' then (None, [Chat_history m])
      else if t = ''chat.message'' then (None, [Chat_message m])
      else if t = ''chat.pin'' then (None, [Chat_pin m])
      else if t = ''chat.purge'' then (None, [Chat_purge m])
      else if t = ''error'' then (None, [Rt_error m])
      else if t = ''pong'' then (None, [])
      else if t = ''race.data'' then (None, [Race_data m])
      else if t = ''race.renders'' then (None, [])
      else (Some (UnknownMessageType (Some (JStr t))), []))"
      by (simp add: handleMessage_typed)
    show "(t = ''chat.message'' \<longrightarrow> handleMessage p d = (None, [Chat_message m])) \<and>
      (t = ''chat.history'' \<longrightarrow> handleMessage p d = (None, [Chat_history m])) \<and>
      (t = ''chat.pin'' \<longrightarrow> handleMessage p d = (None, [Chat_pin m])) \<and>
      (t = ''chat.delete'' \<longrightarrow> handleMessage p d = (None, [Chat_delete m])) \<and>
      (t = ''chat.purge'' \<longrightarrow> handleMessage p d = (None, [Chat_purge m])) \<and>
      (t = ''error'' \<longrightarrow> handleMessage p d = (None, [Rt_error m])) \<and>
      (t = ''race.data'' \<longrightarrow> handleMessage p d = (None, [Race_data m])) \<and>
      (t \<in> {''chat.dm'', ''race.renders'', ''pong''} \<longrightarrow> handleMessage p d = (None, [])) \<and>
      (t \<notin> range RTMessageTypes_str \<longrightarrow>
         handleMessage p d = (Some (UnknownMessageType (Some (JStr t))), []))"
      unfolding known_kinds h by auto
  qed
  show "p d = Some m \<and> message_type m = Inr ty \<and> (\<forall>t. ty \<noteq> Some (JStr t)) \<longrightarrow>
      handleMessage p d = (Some (UnknownMessageType ty), [])"
    using handleMessage_untyped [of p d m ty] by blast
  show "p d = None \<longrightarrow> handleMessage p d = (Some SyntaxError, [])"
    by (simp add: handleMessage_def)
qed

text \<open>
  Instances: the sample frame \<open>M\<close> of type \<open>chat.message\<close> yields one \<open>chat-message\<close>
  event with the frame as decoded; the frame \<open>B\<close> of type \<open>bogus.kind\<close> raises and
  yields no event.
\<close>

theorem handleMessage_dispatch_witness:
  "handleMessage (JSON_parse sample_env) ''M'' =
     (None, [Chat_message (JObj [(''type'', JStr ''chat.message''),
                                 (''message'', JStr ''hello'')])]) \<and>
   handleMessage (JSON_parse sample_env) ''B'' =
     (Some (UnknownMessageType (Some (JStr ''bogus.kind''))), [])"
  using handleMessage_dispatch [of "JSON_parse sample_env" "''M''"
      "JObj [(''type'', JStr ''chat.message''), (''message'', JStr ''hello'')]"
      "''chat.message''" None]
    handleMessage_dispatch [of "JSON_parse sample_env" "''B''"
      "JObj [(''type'', JStr ''bogus.kind'')]" "''bogus.kind''" None]
  by (simp add: sample_env_def sample_parse_def known_kinds)

text \<open>
  C10. The members \<open>CHAT_PIN\<close> and \<open>CHAT_UNPIN\<close> carry the same string, and the
  \<open>switch\<close> of \<open>handleMessage\<close> lists \<open>CHAT_PIN\<close> first: no value of \<open>message.type\<close>
  selects the \<open>CHAT_UNPIN\<close> case, no frame makes \<open>handleMessage\<close> emit a \<open>chat-unpin\<close>
  event, the message handler of the session adds none to what the session has emitted,
  and a frame of type \<open>chat.pin\<close> emits the \<open>chat-pin\<close> event.
\<close>

theorem chat_unpin_never_emitted:
  "RTMessageTypes_str CHAT_UNPIN = RTMessageTypes_str CHAT_PIN \<and>
   select_case ty \<noteq> Some CHAT_UNPIN \<and>
   Chat_unpin x \<notin> set (snd (handleMessage p d)) \<and>
   (Chat_unpin x \<in> set (emitted (snd (on_message p d s))) \<longrightarrow> Chat_unpin x \<in> set (emitted s)) \<and>
   (p d = Some m \<and> message_type m = Inr (Some (JStr ''chat.pin'')) \<longrightarrow>
      handleMessage p d = (None, [Chat_pin m]))"
proof (intro conjI)
  show "RTMessageTypes_str CHAT_UNPIN = RTMessageTypes_str CHAT_PIN" by simp
  show "select_case ty \<noteq> Some CHAT_UNPIN" by (rule select_case_not_unpin)
  show n: "Chat_unpin x \<notin> set (snd (handleMessage p d))"
    using select_case_not_unpin
    by (auto simp add: handleMessage_def split: option.splits sum.splits
        dest: case_body_unpin)
  show "Chat_unpin x \<in> set (emitted (snd (on_message p d s))) \<longrightarrow> Chat_unpin x \<in> set (emitted s)"
    using n by (auto simp add: on_message_def Let_def emit_def split: prod.splits)
  show "p d = Some m \<and> message_type m = Inr (Some (JStr ''chat.pin'')) \<longrightarrow>
      handleMessage p d = (None, [Chat_pin m])"
    by (simp add: handleMessage_typed)
qed

text \<open>An instance: the sample frame \<open>P\<close> of type \<open>chat.pin\<close>.\<close>

theorem chat_unpin_never_emitted_witness:
  "handleMessage (JSON_parse sample_env) ''P'' =
     (None, [Chat_pin (JObj [(''type'', JStr ''chat.pin'')])]) \<and>
   emitted (snd (on_message (JSON_parse sample_env) ''P'' sample_session)) =
     [Raw_message ''P'', Chat_pin (JObj [(''type'', JStr ''chat.pin'')])]"
  using chat_unpin_never_emitted [of None "JObj []" "JSON_parse sample_env" "''P''"
      sample_session "JObj [(''type'', JStr ''chat.pin'')]"]
  by (simp add: sample_env_def sample_parse_def on_message_def Let_def emit_def
      sample_session_def new_WebSocketClient_def)

section \<open>The credential check\<close>

lemma authorize_unreachable:
  "server E (length (requests w)) (token_request c) = Unreachable t msg \<Longrightarrow>
   authorize E c w =
     (Raise (NetworkError msg), c,
      w\<lparr>clock := clock w + int t, requests := requests w @ [token_request c]\<rparr>)"
  by (simp add: authorize_def fetch_def)

lemma authorize_refused:
  "server E (length (requests w)) (token_request c) = Answer r \<Longrightarrow> \<not> ok r \<Longrightarrow>
   authorize E c w =
     (Return False,
      c\<lparr>client_emitted := client_emitted c @ [Auth_error (statusText r)]\<rparr>,
      w\<lparr>clock := clock w + int (elapsed r), requests := requests w @ [token_request c]\<rparr>)"
  by (simp add: authorize_def fetch_def)

lemma authorize_not_json:
  "server E (length (requests w)) (token_request c) = Answer r \<Longrightarrow> ok r \<Longrightarrow>
   JSON_parse E (body_text r) = None \<Longrightarrow>
   authorize E c w =
     (Raise SyntaxError, c,
      w\<lparr>clock := clock w + int (elapsed r), requests := requests w @ [token_request c]\<rparr>)"
  by (simp add: authorize_def fetch_def)

lemma authorize_null:
  "server E (length (requests w)) (token_request c) = Answer r \<Longrightarrow> ok r \<Longrightarrow>
   JSON_parse E (body_text r) = Some decoded \<Longrightarrow> credentials_of E decoded = None \<Longrightarrow>
   authorize E c w =
     (Raise (TypeError ''Cannot read properties of null''),
      c\<lparr>auth := None, authExpireTime := Some (clock w + int (elapsed r))\<rparr>,
      w\<lparr>clock := clock w + int (elapsed r), requests := requests w @ [token_request c]\<rparr>)"
  by (simp add: authorize_def fetch_def Let_def)

lemma authorize_granted:
  "server E (length (requests w)) (token_request c) = Answer r \<Longrightarrow> ok r \<Longrightarrow>
   JSON_parse E (body_text r) = Some decoded \<Longrightarrow> credentials_of E decoded = Some cr \<Longrightarrow>
   authorize E c w =
     (Return True,
      c\<lparr>auth := Some cr,
        authExpireTime :=
          (case expires_in cr of
             None \<Rightarrow> None
           | Some seconds \<Rightarrow> setTime (clock w + int (elapsed r) + seconds * 1000))\<rparr>,
      w\<lparr>clock := clock w + int (elapsed r), requests := requests w @ [token_request c]\<rparr>)"
  by (cases "expires_in cr") (simp_all add: authorize_def fetch_def Let_def)

text \<open>
  What an exchange may change: the credential, its expiry and the client's events; it
  issues the token request and nothing else, and it settles.
\<close>

lemma authorize_frame:
  assumes "authorize E c w = (out, c1, w1)"
  shows "sockets c1 = sockets c \<and> raceDetailsCache c1 = raceDetailsCache c \<and>
         clientId c1 = clientId c \<and> clientSecret c1 = clientSecret c \<and>
         connections w1 = connections w \<and> console w1 = console w \<and> clock w \<le> clock w1 \<and>
         requests w1 = requests w @ [token_request c] \<and> out \<noteq> Unsettled"
proof (cases "server E (length (requests w)) (token_request c)")
  case (Unreachable t msg)
  with assms authorize_unreachable [OF Unreachable] show ?thesis by auto
next
  case (Answer r)
  show ?thesis
  proof (cases "ok r")
    case False
    with assms authorize_refused [OF Answer False] show ?thesis by auto
  next
    case True
    show ?thesis
    proof (cases "JSON_parse E (body_text r)")
      case None
      with assms authorize_not_json [OF Answer True None] show ?thesis by auto
    next
      case (Some decoded)
      show ?thesis
      proof (cases "credentials_of E decoded")
        case None
        with assms authorize_null [OF Answer True Some None] show ?thesis by auto
      next
        case (Some cr)
        with assms authorize_granted [OF Answer True \<open>JSON_parse E (body_text r) = Some decoded\<close> Some]
        show ?thesis by auto
      qed
    qed
  qed
qed

lemma refresh_valid:
  "\<not> expired c w \<Longrightarrow> refresh_if_expired E c w = (Return (), c, w)"
  by (simp add: refresh_if_expired_def)






text \<open>
  What the credential check may change: the credential, its expiry and the client's events;
  it issues at most one request and always settles.
\<close>

lemma refresh_cases:
  assumes "refresh_if_expired E c w = (out, c1, w1)"
  shows "sockets c1 = sockets c \<and> raceDetailsCache c1 = raceDetailsCache c \<and>
   connections w1 = connections w \<and> console w1 = console w \<and> clock w \<le> clock w1 \<and>
   clientId c1 = clientId c \<and> clientSecret c1 = clientSecret c \<and>
   out \<noteq> Unsettled \<and>
   (requests w1 = requests w \<or> requests w1 = requests w @ [token_request c])"
proof (cases "expired c w")
  case False
  with assms refresh_valid [OF False, of E] show ?thesis by auto
next
  case True
  obtain o2 c2 w2 where a: "authorize E c w = (o2, c2, w2)"
    by (cases "authorize E c w") auto
  note f = authorize_frame [OF a]
  from assms True a have "c1 = c2 \<and> w1 = w2 \<and> (out = Unsettled \<longrightarrow> o2 = Unsettled)"
    by (cases o2) (auto simp add: refresh_if_expired_def split: bool.splits)
  with f show ?thesis by auto
qed


lemma refresh_never_hangs: "fst (refresh_if_expired E c w) \<noteq> Unsettled"
  using refresh_cases [of E c w] by (cases "refresh_if_expired E c w") auto

lemma authenticatedFetch_after_check:
  "refresh_if_expired E c w = (Return u, c1, w1) \<Longrightarrow> auth c1 = Some cr \<Longrightarrow>
   server E (length (requests w1))
     (init\<lparr>req_authorization := Some (''Bearer '' @ access_token cr)\<rparr>) = Answer a \<Longrightarrow>
   authenticatedFetch E init c w =
     (Return a, c1,
      w1\<lparr>clock := clock w1 + int (elapsed a),
         requests := requests w1 @
           [init\<lparr>req_authorization := Some (''Bearer '' @ access_token cr)\<rparr>]\<rparr>)"
  by (simp add: authenticatedFetch_def fetch_def)

lemma authenticatedFetch_unreachable:
  "refresh_if_expired E c w = (Return u, c1, w1) \<Longrightarrow> auth c1 = Some cr \<Longrightarrow>
   server E (length (requests w1))
     (init\<lparr>req_authorization := Some (''Bearer '' @ access_token cr)\<rparr>) = Unreachable t msg \<Longrightarrow>
   authenticatedFetch E init c w =
     (Raise (NetworkError msg), c1,
      w1\<lparr>clock := clock w1 + int t,
         requests := requests w1 @
           [init\<lparr>req_authorization := Some (''Bearer '' @ access_token cr)\<rparr>]\<rparr>)"
  by (simp add: authenticatedFetch_def fetch_def)

lemma authenticatedFetch_fetches:
  assumes k: "refresh_if_expired E c w = (Return u, c1, w1)" and cr: "auth c1 = Some cr"
    and run: "authenticatedFetch E init c w = (out, c', w')"
  shows "c' = c1 \<and>
         requests w' = requests w1 @
           [init\<lparr>req_authorization := Some (''Bearer '' @ access_token cr)\<rparr>] \<and>
         connections w' = connections w1 \<and> console w' = console w1 \<and>
         clock w1 \<le> clock w' \<and> out \<noteq> Unsettled"
proof (cases "server E (length (requests w1))
     (init\<lparr>req_authorization := Some (''Bearer '' @ access_token cr)\<rparr>)")
  case (Answer a)
  with run authenticatedFetch_after_check [OF k cr Answer] show ?thesis by auto
next
  case (Unreachable t msg)
  with run authenticatedFetch_unreachable [OF k cr Unreachable] show ?thesis by auto
qed

lemma authenticatedFetch_no_credential:
  "refresh_if_expired E c w = (Return u, c1, w1) \<Longrightarrow> auth c1 = None \<Longrightarrow>
   authenticatedFetch E init c w =
     (Raise (TypeError ''Cannot read properties of undefined''), c1, w1)"
  by (simp add: authenticatedFetch_def)

lemma authenticatedFetch_check_raises:
  "refresh_if_expired E c w = (Raise e, c1, w1) \<Longrightarrow>
   authenticatedFetch E init c w = (Raise e, c1, w1)"
  by (simp add: authenticatedFetch_def)





section \<open>The snapshot cache\<close>

lemma authenticatedFetch_frame:
  "authenticatedFetch E init c w = (out, c1, w1) \<Longrightarrow>
   sockets c1 = sockets c \<and> raceDetailsCache c1 = raceDetailsCache c \<and>
   connections w1 = connections w \<and> console w1 = console w \<and> clock w \<le> clock w1 \<and>
   out \<noteq> Unsettled"
proof -
  assume a: "authenticatedFetch E init c w = (out, c1, w1)"
  obtain o2 c2 w2 where r: "refresh_if_expired E c w = (o2, c2, w2)"
    by (cases "refresh_if_expired E c w") auto
  note f = refresh_cases [OF r]
  show ?thesis
  proof (cases o2)
    case (Return u)
    show ?thesis
    proof (cases "auth c2")
      case None
      with a f authenticatedFetch_no_credential [of E c w u c2 w2 init] r Return
      show ?thesis by auto
    next
      case (Some cr)
      with f authenticatedFetch_fetches [OF r [unfolded Return] Some a]
      show ?thesis by auto
    qed
  next
    case (Raise e)
    with a f authenticatedFetch_check_raises [of E c w e c2 w2 init] r
    show ?thesis by auto
  next
    case Unsettled
    with f show ?thesis by simp
  qed
qed



lemma stamp_primitive:
  "decoded = JNull \<or> (\<exists>b. decoded = JBool b) \<or> (\<exists>n. decoded = JNum n) \<or>
   (\<exists>s. decoded = JStr s) \<Longrightarrow> \<exists>e. stamp E decoded now = Inl e"
  by auto



lemma cached_None:
  "cached c w u = None \<longleftrightarrow>
   (\<forall>e. raceDetailsCache c u = Some e \<longrightarrow> \<not> clock w - last_updated e < 30000)"
  by (auto simp add: cached_def split: option.splits)


lemma fetchRaceData_not_ok:
  "cached c w u = None \<Longrightarrow> authenticatedFetch E (data_request u) c w = (Return raceData, c1, w1) \<Longrightarrow>
   \<not> ok raceData \<Longrightarrow> fetchRaceData E u c w = (Return None, c1, w1)"
  by (simp add: fetchRaceData_def)

lemma fetchRaceData_undecodable:
  "cached c w u = None \<Longrightarrow> authenticatedFetch E (data_request u) c w = (Return raceData, c1, w1) \<Longrightarrow>
   ok raceData \<Longrightarrow> json_RaceDetails E (body_text raceData) (clock w1) = Inl e \<Longrightarrow>
   fetchRaceData E u c w =
     (Return None, c1,
      w1\<lparr>console := console w1 @ [Console_error e, Console_trace (body_text raceData)]\<rparr>)"
  by (simp add: fetchRaceData_def)

lemma fetchRaceData_stored:
  "cached c w u = None \<Longrightarrow> authenticatedFetch E (data_request u) c w = (Return raceData, c1, w1) \<Longrightarrow>
   ok raceData \<Longrightarrow> json_RaceDetails E (body_text raceData) (clock w1) = Inr d \<Longrightarrow>
   fetchRaceData E u c w =
     (Return (Some d), c1\<lparr>raceDetailsCache := (raceDetailsCache c1)(u \<mapsto> d)\<rparr>, w1)"
  by (simp add: fetchRaceData_def)





text \<open>
  C8, amended. When a get finds no fresh entry and its authenticated fetch comes back with
  a response: if the status of the response is not OK, \<open>fetchRaceData\<close> returns
  \<open>null\<close>; if the status is OK and the body is not JSON, or is JSON for \<open>null\<close>, a
  boolean, a number or a string, it writes the error and the body to the console and
  returns \<open>null\<close> as well. It raises in neither case, and the cache stays as it was.
  If the status is OK and the body is JSON for an object or an array, of whatever shape,
  the decoded value is stamped, stored in the cache and returned, and nothing is written to
  the console: the shape of the body is not checked.
\<close>

theorem fetchRaceData_soft_failure:
  "cached c w raceUrl = None \<and>
   authenticatedFetch E (data_request raceUrl) c w = (Return raceData, c', w') \<longrightarrow>
     (\<not> ok raceData \<longrightarrow> fetchRaceData E raceUrl c w = (Return None, c', w')) \<and>
     (ok raceData \<and> JSON_parse E (body_text raceData) = None \<longrightarrow>
        fetchRaceData E raceUrl c w =
          (Return None, c',
           w'\<lparr>console := console w' @
                [Console_error SyntaxError, Console_trace (body_text raceData)]\<rparr>)) \<and>
     (ok raceData \<and> JSON_parse E (body_text raceData) = Some decoded \<and>
      (decoded = JNull \<or> (\<exists>b. decoded = JBool b) \<or> (\<exists>n. decoded = JNum n) \<or>
       (\<exists>s. decoded = JStr s)) \<longrightarrow>
        (\<exists>e. fetchRaceData E raceUrl c w =
          (Return None, c',
           w'\<lparr>console := console w' @
                [Console_error e, Console_trace (body_text raceData)]\<rparr>))) \<and>
     (ok raceData \<and> JSON_parse E (body_text raceData) = Some decoded \<and>
      ((\<exists>props. decoded = JObj props) \<or> (\<exists>items. decoded = JArr items)) \<longrightarrow>
        fetchRaceData E raceUrl c w =
          (Return (Some ((as_RaceDetails E decoded)
                           \<lparr>last_updated := clock w', document := decoded\<rparr>)),
           c'\<lparr>raceDetailsCache := (raceDetailsCache c')(raceUrl \<mapsto>
                 (as_RaceDetails E decoded)
                   \<lparr>last_updated := clock w', document := decoded\<rparr>)\<rparr>,
           w')) \<and>
     raceDetailsCache c' = raceDetailsCache c"
proof (intro impI conjI)
  assume a: "cached c w raceUrl = None \<and>
   authenticatedFetch E (data_request raceUrl) c w = (Return raceData, c', w')"
  then have m: "cached c w raceUrl = None"
    and f: "authenticatedFetch E (data_request raceUrl) c w = (Return raceData, c', w')"
    by simp_all
  show "fetchRaceData E raceUrl c w = (Return None, c', w')" if "\<not> ok raceData"
    using that by (rule fetchRaceData_not_ok [OF m f])
  show "fetchRaceData E raceUrl c w =
          (Return None, c',
           w'\<lparr>console := console w' @
                [Console_error SyntaxError, Console_trace (body_text raceData)]\<rparr>)"
    if "ok raceData \<and> JSON_parse E (body_text raceData) = None"
    using that fetchRaceData_undecodable [OF m f, of SyntaxError]
    by (simp add: json_RaceDetails_def)
  show "\<exists>e. fetchRaceData E raceUrl c w =
          (Return None, c',
           w'\<lparr>console := console w' @
                [Console_error e, Console_trace (body_text raceData)]\<rparr>)"
    if h: "ok raceData \<and> JSON_parse E (body_text raceData) = Some decoded \<and>
      (decoded = JNull \<or> (\<exists>b. decoded = JBool b) \<or> (\<exists>n. decoded = JNum n) \<or>
       (\<exists>s. decoded = JStr s))"
  proof -
    from h stamp_primitive [of decoded E "clock w'"]
    obtain e where "stamp E decoded (clock w') = Inl e" by blast
    with h have "json_RaceDetails E (body_text raceData) (clock w') = Inl e"
      by (simp add: json_RaceDetails_def)
    with h fetchRaceData_undecodable [OF m f, of e] show ?thesis by blast
  qed
  show "fetchRaceData E raceUrl c w =
          (Return (Some ((as_RaceDetails E decoded)
                           \<lparr>last_updated := clock w', document := decoded\<rparr>)),
           c'\<lparr>raceDetailsCache := (raceDetailsCache c')(raceUrl \<mapsto>
                 (as_RaceDetails E decoded)
                   \<lparr>last_updated := clock w', document := decoded\<rparr>)\<rparr>,
           w')"
    if h: "ok raceData \<and> JSON_parse E (body_text raceData) = Some decoded \<and>
      ((\<exists>props. decoded = JObj props) \<or> (\<exists>items. decoded = JArr items))"
  proof -
    from h have "stamp E decoded (clock w') =
        Inr ((as_RaceDetails E decoded)\<lparr>last_updated := clock w', document := decoded\<rparr>)"
      by auto
    with h have "json_RaceDetails E (body_text raceData) (clock w') =
        Inr ((as_RaceDetails E decoded)\<lparr>last_updated := clock w', document := decoded\<rparr>)"
      by (simp add: json_RaceDetails_def)
    with h fetchRaceData_stored [OF m f] show ?thesis by blast
  qed
  from authenticatedFetch_frame [OF f]
  show "raceDetailsCache c' = raceDetailsCache c" by simp
qed

text \<open>
  Instances: the race \<open>/cat/race-9\<close>, which the sample server answers with a 404, and
  the race \<open>/cat/race-2\<close>, which it answers with a page that is not JSON.
\<close>

theorem fetchRaceData_soft_failure_witness:
  "fetchRaceData sample_env ''/cat/race-9'' authorized_client sample_world =
     (Return None, authorized_client,
      sample_world\<lparr>clock := 1700000000003,
        requests := [(data_request ''/cat/race-9'')\<lparr>req_authorization := Some ''Bearer tok''\<rparr>]\<rparr>) \<and>
   fetchRaceData sample_env ''/cat/race-2'' authorized_client sample_world =
     (Return None, authorized_client,
      sample_world\<lparr>clock := 1700000000007,
        requests := [(data_request ''/cat/race-2'')\<lparr>req_authorization := Some ''Bearer tok''\<rparr>],
        console := [Console_error SyntaxError, Console_trace ''<html>'']\<rparr>)"
  using fetchRaceData_soft_failure [where E = sample_env and c = authorized_client
      and w = sample_world and raceUrl = "''/cat/race-9''" and c' = authorized_client
      and raceData = "\<lparr> status_code = 404, statusText = ''Not Found'', body_text = [], elapsed = 3 \<rparr>"
      and w' = "sample_world\<lparr>clock := 1700000000003,
        requests := [(data_request ''/cat/race-9'')\<lparr>req_authorization := Some ''Bearer tok''\<rparr>]\<rparr>"]
    fetchRaceData_soft_failure [where E = sample_env and c = authorized_client
      and w = sample_world and raceUrl = "''/cat/race-2''" and c' = authorized_client
      and raceData = "\<lparr> status_code = 200, statusText = ''OK'', body_text = ''<html>'', elapsed = 7 \<rparr>"
      and w' = "sample_world\<lparr>clock := 1700000000007,
        requests := [(data_request ''/cat/race-2'')\<lparr>req_authorization := Some ''Bearer tok''\<rparr>]\<rparr>"]
  by (simp add: cached_def authenticatedFetch_def refresh_if_expired_def fetch_def expired_def
      sample_env_def authorized_client_def sample_client_def sample_world_def
      sample_server_def sample_credentials_def data_request_def ok_def sample_parse_def)

text \<open>
  The claim as stated fails on an OK body that is JSON of another shape. The sample server
  answers for the race \<open>/cat/race-3\<close> with the empty object, which has none of the
  properties of a snapshot; the get stamps it, stores it and returns it, and the console
  stays empty.
\<close>

theorem fetchRaceData_soft_failure_counterexample:
  "JSON_parse sample_env ''{}'' = Some (JObj []) \<and> \<not> snapshot_shape (JObj []) \<and>
   fst (fetchRaceData sample_env ''/cat/race-3'' authorized_client sample_world) =
     Return (Some ((as_RaceDetails sample_env (JObj []))
                     \<lparr>last_updated := 1700000000007, document := JObj []\<rparr>)) \<and>
   raceDetailsCache (fst (snd (fetchRaceData sample_env ''/cat/race-3'' authorized_client
      sample_world))) ''/cat/race-3'' =
     Some ((as_RaceDetails sample_env (JObj []))
             \<lparr>last_updated := 1700000000007, document := JObj []\<rparr>) \<and>
   console (snd (snd (fetchRaceData sample_env ''/cat/race-3'' authorized_client
      sample_world))) = []"
  by (simp add: fetchRaceData_def json_RaceDetails_def cached_def authenticatedFetch_def
      refresh_if_expired_def fetch_def expired_def sample_env_def authorized_client_def
      sample_client_def sample_world_def sample_server_def sample_credentials_def
      data_request_def ok_def sample_parse_def RaceDetails_properties_def)














section \<open>Joining a room\<close>

lemma join_existing:
  "sockets c u \<noteq> None \<Longrightarrow> joinRaceRoom E u c w = (Return True, c, w)"
  by (auto simp add: joinRaceRoom_def)

lemma join_check_raises:
  "sockets c u = None \<Longrightarrow> refresh_if_expired E c w = (Raise e, ca, wa) \<Longrightarrow>
   joinRaceRoom E u c w = (Raise e, ca, wa)"
  by (simp add: joinRaceRoom_def)


lemma join_new:
  "sockets c u = None \<Longrightarrow> refresh_if_expired E c w = (Return x, ca, wa) \<Longrightarrow>
   auth ca = Some cr \<Longrightarrow>
   joinRaceRoom E u c w =
     (case handshake E u of
        Opens t \<Rightarrow>
          (Return True,
           ca\<lparr>sockets := (sockets ca)(u \<mapsto>
                on_open (stringify E) (new_WebSocketClient (access_token cr) u))\<rparr>,
           wa\<lparr>connections := connections wa @ [''wss://racetime.gg'' @ u],
              clock := clock wa + int t\<rparr>)
      | Fails t err \<Rightarrow>
          (Raise (SocketFailure err),
           ca\<lparr>sockets := (sockets ca)(u \<mapsto>
                on_error err (new_WebSocketClient (access_token cr) u))\<rparr>,
           wa\<lparr>connections := connections wa @ [''wss://racetime.gg'' @ u],
              clock := clock wa + int t\<rparr>)
      | Never \<Rightarrow>
          (Unsettled,
           ca\<lparr>sockets := (sockets ca)(u \<mapsto> new_WebSocketClient (access_token cr) u)\<rparr>,
           wa\<lparr>connections := connections wa @ [''wss://racetime.gg'' @ u]\<rparr>))"
  by (simp add: joinRaceRoom_def Let_def new_WebSocketClient_def split: handshake.splits)

lemma join_new_effect:
  assumes n: "sockets c u = None" and k: "refresh_if_expired E c w = (Return x, ca, wa)"
    and cr: "auth ca = Some cr" and run: "joinRaceRoom E u c w = (out, c', w')"
  shows "dom (sockets c') = insert u (dom (sockets c)) \<and>
         (\<forall>v. v \<noteq> u \<longrightarrow> sockets c' v = sockets c v) \<and>
         (\<exists>s. sockets c' u = Some s \<and> socket_url s = ''wss://racetime.gg'' @ u \<and>
              bearer s = ''Bearer '' @ access_token cr) \<and>
         connections w' = connections w @ [''wss://racetime.gg'' @ u] \<and>
         out = (case handshake E u of Opens t \<Rightarrow> Return True
                | Fails t err \<Rightarrow> Raise (SocketFailure err) | Never \<Rightarrow> Unsettled) \<and>
         raceDetailsCache c' = raceDetailsCache c \<and> requests w' = requests wa"
proof -
  from refresh_cases [OF k]
  have f: "sockets ca = sockets c" "connections wa = connections w"
    "raceDetailsCache ca = raceDetailsCache c" by simp_all
  show ?thesis
  proof (cases "handshake E u")
    case (Opens t)
    with run join_new [OF n k cr] f show ?thesis
      by (auto simp add: on_open_eq new_WebSocketClient_def)
  next
    case (Fails t err)
    with run join_new [OF n k cr] f show ?thesis
      by (auto simp add: on_error_def emit_def new_WebSocketClient_def)
  next
    case Never
    with run join_new [OF n k cr] f show ?thesis
      by (auto simp add: new_WebSocketClient_def)
  qed
qed


text \<open>
  C7, amended. For an endpoint that has a session in the mapping, \<open>joinRaceRoom\<close>
  returns \<open>true\<close> at once and changes nothing: no session is created and no socket
  opened. For an endpoint without a session, once the credential check has passed (the
  token is valid, or it had expired and was refreshed), exactly one session is added to the
  mapping under the endpoint, every other entry stays, exactly one socket is opened, to the
  endpoint and with the stored token, and the call returns \<open>true\<close>, raises the socket's
  error or stays unsettled as the socket first opens, first fails or does neither; a
  second call then returns \<open>true\<close> at once. When the credential check raises, the call
  raises the same error, the mapping stays as it was and no socket is opened.
\<close>

theorem joinRaceRoom_idempotent:
  assumes run: "joinRaceRoom E roomUrl c w = (out, c', w')"
  shows
    "(sockets c roomUrl \<noteq> None \<longrightarrow> out = Return True \<and> c' = c \<and> w' = w) \<and>
     (sockets c roomUrl = None \<and> refresh_if_expired E c w = (Return (), ca, wa) \<and>
      auth ca = Some cr \<longrightarrow>
        dom (sockets c') = insert roomUrl (dom (sockets c)) \<and>
        (\<forall>v. v \<noteq> roomUrl \<longrightarrow> sockets c' v = sockets c v) \<and>
        (\<exists>s. sockets c' roomUrl = Some s \<and> socket_url s = ''wss://racetime.gg'' @ roomUrl \<and>
             bearer s = ''Bearer '' @ access_token cr) \<and>
        connections w' = connections w @ [''wss://racetime.gg'' @ roomUrl] \<and>
        out = (case handshake E roomUrl of Opens t \<Rightarrow> Return True
               | Fails t err \<Rightarrow> Raise (SocketFailure err) | Never \<Rightarrow> Unsettled) \<and>
        joinRaceRoom E roomUrl c' w' = (Return True, c', w')) \<and>
     (sockets c roomUrl = None \<and> refresh_if_expired E c w = (Raise e, ca, wa) \<longrightarrow>
        out = Raise e \<and> sockets c' = sockets c \<and> connections w' = connections w)"
proof (intro conjI impI)
  assume "sockets c roomUrl \<noteq> None"
  from run join_existing [OF this, of E w]
  show "out = Return True" "c' = c" "w' = w" by simp_all
next
  assume a: "sockets c roomUrl = None \<and> refresh_if_expired E c w = (Return (), ca, wa) \<and>
      auth ca = Some cr"
  then have n: "sockets c roomUrl = None" and k: "refresh_if_expired E c w = (Return (), ca, wa)"
    and cr: "auth ca = Some cr" by simp_all
  note e = join_new_effect [OF n k cr run]
  from e show "dom (sockets c') = insert roomUrl (dom (sockets c))" by blast
  from e show "\<forall>v. v \<noteq> roomUrl \<longrightarrow> sockets c' v = sockets c v" by blast
  from e show s: "\<exists>s. sockets c' roomUrl = Some s \<and> socket_url s = ''wss://racetime.gg'' @ roomUrl \<and>
             bearer s = ''Bearer '' @ access_token cr" by blast
  from e show "connections w' = connections w @ [''wss://racetime.gg'' @ roomUrl]" by blast
  from e show "out = (case handshake E roomUrl of Opens t \<Rightarrow> Return True
               | Fails t err \<Rightarrow> Raise (SocketFailure err) | Never \<Rightarrow> Unsettled)" by blast
  from s have "sockets c' roomUrl \<noteq> None" by auto
  then show "joinRaceRoom E roomUrl c' w' = (Return True, c', w')" by (rule join_existing)
next
  assume a: "sockets c roomUrl = None \<and> refresh_if_expired E c w = (Raise e, ca, wa)"
  then have n: "sockets c roomUrl = None" and k: "refresh_if_expired E c w = (Raise e, ca, wa)"
    by simp_all
  from run join_check_raises [OF n k] refresh_cases [OF k]
  show "out = Raise e" "sockets c' = sockets c" "connections w' = connections w"
    by simp_all
qed

text \<open>
  The claim as stated fails where the credential check fails: the sample client has no
  session for the endpoint and an expired token, the server refuses the token exchange,
  and the call raises with no session created and no socket opened.
\<close>

theorem joinRaceRoom_idempotent_counterexample:
  "sockets sample_client ''/ws/o/bot/race-1'' = None \<and>
   fst (joinRaceRoom refusing_env ''/ws/o/bot/race-1'' sample_client sample_world) =
     Raise (Error ''Unable to refresh access_token!'') \<and>
   sockets (fst (snd (joinRaceRoom refusing_env ''/ws/o/bot/race-1'' sample_client
      sample_world))) ''/ws/o/bot/race-1'' = None \<and>
   connections (snd (snd (joinRaceRoom refusing_env ''/ws/o/bot/race-1'' sample_client
      sample_world))) = []"
  by (simp add: joinRaceRoom_def refresh_if_expired_def authorize_def fetch_def Let_def
      expired_def refusing_env_def sample_env_def sample_client_def sample_world_def ok_def)

text \<open>
  An instance: the authorized client joins the sample room, whose socket opens; the second
  call on the resulting state returns \<open>true\<close> and changes nothing.
\<close>

lemma sample_join:
  "joinRaceRoom sample_env ''/ws/o/bot/race-1'' authorized_client sample_world =
     (Return True,
      authorized_client\<lparr>sockets := [''/ws/o/bot/race-1'' \<mapsto>
        \<lparr> socket_url = ''wss://racetime.gg/ws/o/bot/race-1'', bearer = ''Bearer tok'',
          ready = True, messageQueue = [], sent = [],
          emitted = [Ready ''wss://racetime.gg/ws/o/bot/race-1''] \<rparr>]\<rparr>,
      sample_world\<lparr>connections := [''wss://racetime.gg/ws/o/bot/race-1''],
        clock := 1700000000010\<rparr>)"
  by (simp add: joinRaceRoom_def refresh_if_expired_def expired_def Let_def on_open_eq
      new_WebSocketClient_def sample_env_def authorized_client_def sample_client_def
      sample_world_def sample_credentials_def)

theorem joinRaceRoom_idempotent_witness:
  "joinRaceRoom sample_env ''/ws/o/bot/race-1'' authorized_client sample_world =
     (Return True,
      authorized_client\<lparr>sockets := [''/ws/o/bot/race-1'' \<mapsto>
        \<lparr> socket_url = ''wss://racetime.gg/ws/o/bot/race-1'', bearer = ''Bearer tok'',
          ready = True, messageQueue = [], sent = [],
          emitted = [Ready ''wss://racetime.gg/ws/o/bot/race-1''] \<rparr>]\<rparr>,
      sample_world\<lparr>connections := [''wss://racetime.gg/ws/o/bot/race-1''],
        clock := 1700000000010\<rparr>) \<and>
   joinRaceRoom sample_env ''/ws/o/bot/race-1''
     (authorized_client\<lparr>sockets := [''/ws/o/bot/race-1'' \<mapsto>
        \<lparr> socket_url = ''wss://racetime.gg/ws/o/bot/race-1'', bearer = ''Bearer tok'',
          ready = True, messageQueue = [], sent = [],
          emitted = [Ready ''wss://racetime.gg/ws/o/bot/race-1''] \<rparr>]\<rparr>)
     (sample_world\<lparr>connections := [''wss://racetime.gg/ws/o/bot/race-1''],
        clock := 1700000000010\<rparr>) =
     (Return True,
      authorized_client\<lparr>sockets := [''/ws/o/bot/race-1'' \<mapsto>
        \<lparr> socket_url = ''wss://racetime.gg/ws/o/bot/race-1'', bearer = ''Bearer tok'',
          ready = True, messageQueue = [], sent = [],
          emitted = [Ready ''wss://racetime.gg/ws/o/bot/race-1''] \<rparr>]\<rparr>,
      sample_world\<lparr>connections := [''wss://racetime.gg/ws/o/bot/race-1''],
        clock := 1700000000010\<rparr>)"
proof -
  have k: "refresh_if_expired sample_env authorized_client sample_world =
           (Return (), authorized_client, sample_world)"
    by (simp add: refresh_if_expired_def expired_def authorized_client_def sample_world_def)
  have n: "sockets authorized_client ''/ws/o/bot/race-1'' = None"
    by (simp add: authorized_client_def sample_client_def)
  have cr: "auth authorized_client = Some sample_credentials"
    by (simp add: authorized_client_def)
  from joinRaceRoom_idempotent [OF sample_join, where ca = authorized_client
      and wa = sample_world and cr = sample_credentials] n k cr
  have "joinRaceRoom sample_env ''/ws/o/bot/race-1''
     (authorized_client\<lparr>sockets := [''/ws/o/bot/race-1'' \<mapsto>
        \<lparr> socket_url = ''wss://racetime.gg/ws/o/bot/race-1'', bearer = ''Bearer tok'',
          ready = True, messageQueue = [], sent = [],
          emitted = [Ready ''wss://racetime.gg/ws/o/bot/race-1''] \<rparr>]\<rparr>)
     (sample_world\<lparr>connections := [''wss://racetime.gg/ws/o/bot/race-1''],
        clock := 1700000000010\<rparr>) =
     (Return True,
      authorized_client\<lparr>sockets := [''/ws/o/bot/race-1'' \<mapsto>
        \<lparr> socket_url = ''wss://racetime.gg/ws/o/bot/race-1'', bearer = ''Bearer tok'',
          ready = True, messageQueue = [], sent = [],
          emitted = [Ready ''wss://racetime.gg/ws/o/bot/race-1''] \<rparr>]\<rparr>,
      sample_world\<lparr>connections := [''wss://racetime.gg/ws/o/bot/race-1''],
        clock := 1700000000010\<rparr>)"
    by blast
  with sample_join show ?thesis by simp
qed

section \<open>Closure of a session\<close>

text \<open>
  C1, at the failing inputs. When the socket of a registered session closes with a code
  above 1000 (\<open>1001 + n\<close>; \<open>n = 5\<close> is 1006), the session emits its \<open>close\<close>
  event and the listener of \<open>joinRaceRoom\<close> calls \<open>socket.reconnect()\<close>, which does
  not exist: the handler ends in a \<open>TypeError\<close>, and the world, with its list of
  opened sockets, is as before: no connection attempt is made.
\<close>

theorem abnormal_close_reconnect_fails:
  "deliver E roomUrl (Socket_close (1001 + int n) reason)
     (c\<lparr>sockets := (sockets c)(roomUrl \<mapsto> s)\<rparr>) w =
     (Some (TypeError ''socket.reconnect is not a function''),
      c\<lparr>sockets := (sockets c)(roomUrl \<mapsto> s\<lparr>emitted := emitted s @
          [Close (1001 + int n) reason]\<rparr>)\<rparr>,
      w)"
  by (simp add: deliver_def Let_def on_close_def emit_def close_listener_def reconnect_def)

text \<open>
  C2, amended. For every session in the mapping, a closure of its socket with a normal
  close code (at most 1000) raises nothing and leaves the session's entry in the mapping
  and its pending queue as they were: the session emits its \<open>close\<close> event, and
  nothing else changes in the client or in the world. An abnormal closure (a code above
  1000) leaves the mapping entry in place.
\<close>

theorem close_keeps_session:
  "(sockets c roomUrl = Some s \<and> code \<le> 1000 \<longrightarrow>
      deliver E roomUrl (Socket_close code reason) c w =
        (None,
         c\<lparr>sockets := (sockets c)(roomUrl \<mapsto> s\<lparr>emitted := emitted s @ [Close code reason]\<rparr>)\<rparr>,
         w)) \<and>
   (sockets c roomUrl = Some s \<and> 1000 < code \<longrightarrow>
      sockets (fst (snd (deliver E roomUrl (Socket_close code reason) c w))) roomUrl \<noteq> None)"
  by (simp add: deliver_def Let_def on_close_def emit_def close_listener_def reconnect_def)

text \<open>
  Instances: the connecting sample session, with one command queued, closes with code
  1000, which raises nothing and leaves the queue in place, and with code 1006, after
  which the session is still in the mapping.
\<close>

theorem close_keeps_session_witness:
  "deliver sample_env ''/ws/o/bot/race-1'' (Socket_close 1000 ''bye'')
     (authorized_client\<lparr>sockets := [''/ws/o/bot/race-1'' \<mapsto> sample_session]\<rparr>)
     sample_world =
     (None,
      authorized_client\<lparr>sockets := [''/ws/o/bot/race-1'' \<mapsto>
        sample_session\<lparr>emitted := [Close 1000 ''bye'']\<rparr>]\<rparr>,
      sample_world) \<and>
   messageQueue (sample_session\<lparr>emitted := [Close 1000 ''bye'']\<rparr>) =
     [\<lparr> action = GET_RACE, data = None \<rparr>] \<and>
   sockets (fst (snd (deliver sample_env ''/ws/o/bot/race-1'' (Socket_close 1006 ''lost'')
        (authorized_client\<lparr>sockets := [''/ws/o/bot/race-1'' \<mapsto> sample_session]\<rparr>)
        sample_world))) ''/ws/o/bot/race-1'' \<noteq> None"
  using close_keeps_session [where
      c = "authorized_client\<lparr>sockets := [''/ws/o/bot/race-1'' \<mapsto> sample_session]\<rparr>"
      and roomUrl = "''/ws/o/bot/race-1''" and s = sample_session and E = sample_env
      and code = 1000 and reason = "''bye''" and w = sample_world]
    close_keeps_session [where
      c = "authorized_client\<lparr>sockets := [''/ws/o/bot/race-1'' \<mapsto> sample_session]\<rparr>"
      and roomUrl = "''/ws/o/bot/race-1''" and s = sample_session and E = sample_env
      and code = 1006 and reason = "''lost''" and w = sample_world]
  by (simp add: sample_session_def new_WebSocketClient_def)

text \<open>
  The claim as stated fails at a normal closure: after the registered sample session
  closes with code 1000 its entry is still in the mapping and its queue still holds the
  pending command.
\<close>

theorem close_keeps_session_counterexample:
  "sockets (fst (snd (deliver sample_env ''/ws/o/bot/race-1'' (Socket_close 1000 ''bye'')
        (authorized_client\<lparr>sockets := [''/ws/o/bot/race-1'' \<mapsto> sample_session]\<rparr>)
        sample_world))) ''/ws/o/bot/race-1'' =
     Some (sample_session\<lparr>emitted := [Close 1000 ''bye'']\<rparr>) \<and>
   messageQueue (sample_session\<lparr>emitted := [Close 1000 ''bye'']\<rparr>) =
     [\<lparr> action = GET_RACE, data = None \<rparr>]"
  by (simp add: deliver_def Let_def on_close_def emit_def close_listener_def
      sample_session_def new_WebSocketClient_def)


section \<open>Cancelling a race\<close>






end
